theory Spec2Isabelle
  imports Main "HOL-Library.Sublist"
begin

section \<open>Data model (Routes.ts, imported by SideNav.ts)\<close>

text \<open>
  Modelled from the spec: the type declarations \<open>Route\<close>, \<open>Routes\<close>,
  \<open>RouteTreeItemType\<close>, \<open>RouteTreeItem\<close> and \<open>RouteTree\<close> live in
  \<^verbatim>\<open>./Routes\<close>, which SideNav.ts only imports. A route is
  \<^verbatim>\<open>{ path: string, label: string }\<close>; SideNav.ts reads the label through
  \<^verbatim>\<open>route.label?.includes\<close>, so a missing label (JavaScript \<^verbatim>\<open>undefined\<close>) is a
  value the code provides for: the label is a \<open>string option\<close> with \<open>None\<close> for
  \<^verbatim>\<open>undefined\<close>.
\<close>

record Route =
  path :: string
  label :: "string option"

type_synonym Routes = "Route list"

text \<open>
  Modelled from the spec: a tree item is a tagged variant, a GROUP with a label and
  children or an ITEM with an index into the routes. SideNav.ts maps over the children
  through \<^verbatim>\<open>treeItem.children?.map\<close>, so absent children are \<open>None\<close>.
\<close>

datatype RouteTreeItem =
    GROUP string "RouteTreeItem list option"
  | ITEM int

type_synonym RouteTree = "RouteTreeItem list"

section \<open>The DOM values SideNav.ts reads and writes\<close>

text \<open>The only exception the code can raise: reading a property of \<^verbatim>\<open>undefined\<close>.\<close>

datatype error = TypeError

text \<open>
  An element as far as the component looks at it: its role, its classes and the
  \<^verbatim>\<open>aria-expanded\<close> attribute (\<open>None\<close> when the attribute is absent, which the
  \<^verbatim>\<open>ariaExpanded\<close> property reads as \<^verbatim>\<open>null\<close>).
\<close>

record element =
  role :: string
  classes :: "string list"
  ariaExpanded :: "string option"

text \<open>The methods that the templates bind as event listeners.\<close>

datatype handler = OnSearch | OnTreeGroupClick | OnTreeGroupKeyDown | OnSearchChange

text \<open>
  What \<^verbatim>\<open>renderTreeItem\<close> returns when it returns a template: the \<^verbatim>\<open>li\<close> of a
  group, with the listeners and the text of its label \<^verbatim>\<open>span\<close> and the rendered
  children of its \<^verbatim>\<open>ul role="group"\<close> (each child a template or \<^verbatim>\<open>null\<close>; the
  whole list \<^verbatim>\<open>undefined\<close> when the group has no children array), or the \<^verbatim>\<open>li\<close> of
  a leaf with the \<^verbatim>\<open>href\<close> and the text of its link.
\<close>

datatype template =
    TreeGroup element "(string \<times> handler) list" string "template option list option"
  | TreeLeaf element string "string option"

section \<open>SideNavElement\<close>

record SideNavElement =
  routes :: Routes
  routeTree :: RouteTree
  searchable :: bool
  searchString :: string

text \<open>\<^verbatim>\<open>String.prototype.includes\<close>: the argument occurs at some position of the receiver.\<close>

fun str_includes :: "string \<Rightarrow> string \<Rightarrow> bool" where
  "str_includes [] t = (t = [])"
| "str_includes (c # cs) t = (prefix t (c # cs) \<or> str_includes cs t)"

text \<open>\<^verbatim>\<open>this.routes[i]\<close>: an index outside the array reads \<^verbatim>\<open>undefined\<close>.\<close>

definition routes_at :: "'a SideNavElement_scheme \<Rightarrow> int \<Rightarrow> Route option" where
  "routes_at this i =
     (if 0 \<le> i \<and> i < int (length (routes this)) then Some (routes this ! nat i) else None)"

text \<open>
  \<^verbatim>\<open>itemHiddenForSearch(route)\<close>. The argument is \<open>None\<close> when the caller passes
  \<^verbatim>\<open>undefined\<close>; then \<^verbatim>\<open>route.label\<close> raises. A non-empty string is truthy.
  \<^verbatim>\<open>route.label?.includes(s)\<close> is \<^verbatim>\<open>undefined\<close> for a missing label, and its negation is true.
\<close>

definition itemHiddenForSearch :: "'a SideNavElement_scheme \<Rightarrow> Route option \<Rightarrow> error + bool" where
  "itemHiddenForSearch this route =
     (if searchable this \<and> searchString this \<noteq> [] then
        (case route of
           None \<Rightarrow> Inl TypeError
         | Some r \<Rightarrow>
             (case label r of
                None \<Rightarrow> Inr True
              | Some l \<Rightarrow> Inr (\<not> str_includes l (searchString this))))
      else Inr False)"

text \<open>
  \<^verbatim>\<open>renderTreeItem(treeItem)\<close>, with \<^verbatim>\<open>children.map\<close> as the second function: the
  first child that raises ends the whole render.
\<close>

fun renderTreeItem :: "'a SideNavElement_scheme \<Rightarrow> RouteTreeItem \<Rightarrow> error + template option"
  and renderTreeItems :: "'a SideNavElement_scheme \<Rightarrow> RouteTreeItem list \<Rightarrow> error + template option list"
where
  "renderTreeItem this (GROUP lbl None) =
     Inr (Some (TreeGroup
       \<lparr>role = ''treeitem'', classes = [''expandable''], ariaExpanded = Some ''false''\<rparr>
       [(''click'', OnTreeGroupClick), (''keydown'', OnTreeGroupKeyDown)]
       lbl None))"
| "renderTreeItem this (GROUP lbl (Some cs)) =
     (case renderTreeItems this cs of
        Inl e \<Rightarrow> Inl e
      | Inr rs \<Rightarrow>
          Inr (Some (TreeGroup
            \<lparr>role = ''treeitem'', classes = [''expandable''], ariaExpanded = Some ''false''\<rparr>
            [(''click'', OnTreeGroupClick), (''keydown'', OnTreeGroupKeyDown)]
            lbl (Some rs))))"
| "renderTreeItem this (ITEM i) =
     (let route = routes_at this i in
      case itemHiddenForSearch this route of
        Inl e \<Rightarrow> Inl e
      | Inr hidden \<Rightarrow>
          if hidden then Inr None
          else (case route of
                  None \<Rightarrow> Inl TypeError
                | Some r \<Rightarrow>
                    Inr (Some (TreeLeaf
                      \<lparr>role = ''treeitem'', classes = [], ariaExpanded = None\<rparr>
                      (path r) (label r)))))"
| "renderTreeItems this [] = Inr []"
| "renderTreeItems this (x # xs) =
     (case renderTreeItem this x of
        Inl e \<Rightarrow> Inl e
      | Inr r \<Rightarrow>
          (case renderTreeItems this xs of
             Inl e \<Rightarrow> Inl e
           | Inr rs \<Rightarrow> Inr (r # rs)))"

text \<open>
  What \<^verbatim>\<open>render\<close> returns: the \<^verbatim>\<open>design-docs-sidenav-search\<close> element with its
  listeners and the classes that \<^verbatim>\<open>classMap\<close> leaves on it, and the items of the
  \<^verbatim>\<open>ul role="tree"\<close>.
\<close>

record SideNavTemplate =
  search_listeners :: "(string \<times> handler) list"
  search_classes :: "string list"
  tree_role :: string
  tree_items :: "template option list"

definition render :: "'a SideNavElement_scheme \<Rightarrow> error + SideNavTemplate" where
  "render this =
     (let searchClasses = (if \<not> searchable this then [''hidden''] else []) in
      case renderTreeItems this (routeTree this) of
        Inl e \<Rightarrow> Inl e
      | Inr items \<Rightarrow>
          Inr \<lparr>search_listeners = [(''search'', OnSearch)],
               search_classes = searchClasses,
               tree_role = ''tree'',
               tree_items = items\<rparr>)"

subsection \<open>Events and handlers\<close>

text \<open>
  \<^verbatim>\<open>CustomEvent\<close>: its type, its \<^verbatim>\<open>detail\<close> and the two flags of its init dictionary
  that decide where it travels (\<^verbatim>\<open>bubbles\<close> is false unless given).
\<close>

record CustomEvent =
  ce_type :: string
  detail :: string
  composed :: bool
  bubbles :: bool

text \<open>
  A pointer or keyboard event on a group label, as far as the handlers read it: its
  type, its \<^verbatim>\<open>key\<close> (\<open>None\<close> for an event that has none) and the element that
  \<^verbatim>\<open>event.target.parentElement\<close> is at the time of the call (\<open>None\<close> for \<^verbatim>\<open>null\<close>).
  A handler returns that element as it has left it.
\<close>

record Event =
  ev_type :: string
  key :: "string option"
  parentElement :: "element option"

text \<open>\<^verbatim>\<open>onSearch(event)\<close>; the \<^verbatim>\<open>console.info\<close> line writes no state.\<close>

definition onSearch :: "'a SideNavElement_scheme \<Rightarrow> CustomEvent \<Rightarrow> 'a SideNavElement_scheme" where
  "onSearch this event = this\<lparr>searchString := detail event\<rparr>"

text \<open>
  \<^verbatim>\<open>treeGroupToggle(el)\<close>: the \<^verbatim>\<open>ariaExpanded\<close> property and
  \<^verbatim>\<open>setAttribute("aria-expanded", ...)\<close> write the same attribute; on \<^verbatim>\<open>null\<close> the
  optional call does nothing.
\<close>

definition treeGroupToggle :: "element option \<Rightarrow> element option" where
  "treeGroupToggle el =
     (if (case el of None \<Rightarrow> False | Some e \<Rightarrow> ariaExpanded e = Some ''true'')
      then map_option (\<lambda>e. e\<lparr>ariaExpanded := Some ''false''\<rparr>) el
      else map_option (\<lambda>e. e\<lparr>ariaExpanded := Some ''true''\<rparr>) el)"

definition onTreeGroupKeyDown :: "Event \<Rightarrow> element option" where
  "onTreeGroupKeyDown event =
     (if key event = Some ''Enter'' then treeGroupToggle (parentElement event)
      else parentElement event)"

definition onTreeGroupClick :: "Event \<Rightarrow> element option" where
  "onTreeGroupClick event = treeGroupToggle (parentElement event)"

text \<open>
  An event arriving at a group label: every listener bound under the event's type is
  called, in order, each seeing the element as the one before left it. The listeners
  of the other component do not write the element.
\<close>

fun call_handler :: "handler \<Rightarrow> Event \<Rightarrow> element option" where
  "call_handler OnTreeGroupClick event = onTreeGroupClick event"
| "call_handler OnTreeGroupKeyDown event = onTreeGroupKeyDown event"
| "call_handler OnSearch event = parentElement event"
| "call_handler OnSearchChange event = parentElement event"

fun dispatch_on_label :: "(string \<times> handler) list \<Rightarrow> Event \<Rightarrow> element option" where
  "dispatch_on_label [] event = parentElement event"
| "dispatch_on_label ((name, h) # ls) event =
     (if name = ev_type event
      then dispatch_on_label ls (event\<lparr>parentElement := call_handler h event\<rparr>)
      else dispatch_on_label ls event)"

text \<open>The state of the component after one of its methods has run: only \<^verbatim>\<open>onSearch\<close>
  assigns to a field of \<^verbatim>\<open>this\<close>.\<close>

datatype operation =
    Render
  | RenderTreeItem RouteTreeItem
  | ItemHiddenForSearch "Route option"
  | Search CustomEvent
  | TreeGroupKeyDown Event
  | TreeGroupClick Event

fun state_after :: "operation \<Rightarrow> 'a SideNavElement_scheme \<Rightarrow> 'a SideNavElement_scheme" where
  "state_after (Search event) this = onSearch this event"
| "state_after Render this = this"
| "state_after (RenderTreeItem treeItem) this = this"
| "state_after (ItemHiddenForSearch route) this = this"
| "state_after (TreeGroupKeyDown event) this = this"
| "state_after (TreeGroupClick event) this = this"

section \<open>SideNavSearchElement\<close>

record SideNavSearchElement =
  placeholder :: string

text \<open>The \<^verbatim>\<open>input\<close> event of the search field: \<^verbatim>\<open>event.target.value\<close>.\<close>

record InputEvent =
  target_value :: string

record InputTemplate =
  input_type :: string
  input_placeholder :: string
  input_listeners :: "(string \<times> handler) list"

definition search_render :: "'a SideNavSearchElement_scheme \<Rightarrow> InputTemplate" where
  "search_render this =
     \<lparr>input_type = ''search'',
      input_placeholder = placeholder this,
      input_listeners = [(''input'', OnSearchChange)]\<rparr>"

text \<open>\<^verbatim>\<open>onSearchChange(event)\<close>: the value is the event it dispatches.\<close>

definition onSearchChange :: "InputEvent \<Rightarrow> CustomEvent" where
  "onSearchChange event =
     \<lparr>ce_type = ''search'', detail = target_value event, composed = True, bubbles = False\<rparr>"

text \<open>
  Where the dispatched event is heard. \<^verbatim>\<open>onSearchChange\<close> dispatches on the search
  element itself, which stands in the shadow tree of the SideNav element. By the DOM's
  dispatch rules the listeners of the target always run; the event's path leaves the
  shadow tree only for a composed event, and the host of that tree then sees the
  event retargeted to itself, at its target, so that its listeners run whether or not
  the event bubbles; the ancestors of the host are on the path of a composed event
  too, but their listeners run in the bubbling phase only.
\<close>

datatype listener_site = SearchElement | SideNavHost | SideNavAncestor

fun heard_at :: "CustomEvent \<Rightarrow> listener_site \<Rightarrow> bool" where
  "heard_at event SearchElement = True"
| "heard_at event SideNavHost = composed event"
| "heard_at event SideNavAncestor = (composed event \<and> bubbles event)"

text \<open>The invariant of the data model: every ITEM below a node indexes an existing route.\<close>

fun in_bounds :: "Routes \<Rightarrow> RouteTreeItem \<Rightarrow> bool" where
  "in_bounds rs (ITEM i) = (0 \<le> i \<and> i < int (length rs))"
| "in_bounds rs (GROUP lbl None) = True"
| "in_bounds rs (GROUP lbl (Some cs)) = list_all (in_bounds rs) cs"

text \<open>
  A rendered item shows the groups of a tree item: a GROUP appears as the collapsed
  group element with its own label and the two listeners, and its child container
  shows the groups of its children in their order, one entry for each child; an
  ITEM appears as a leaf or as nothing, never as a group.
\<close>

fun group_shown :: "RouteTreeItem \<Rightarrow> template option \<Rightarrow> bool"
  and groups_shown :: "RouteTreeItem list \<Rightarrow> template option list \<Rightarrow> bool"
where
  "group_shown (GROUP lbl None) (Some (TreeGroup li ls txt None)) =
     (li = \<lparr>role = ''treeitem'', classes = [''expandable''], ariaExpanded = Some ''false''\<rparr> \<and>
      ls = [(''click'', OnTreeGroupClick), (''keydown'', OnTreeGroupKeyDown)] \<and>
      txt = lbl)"
| "group_shown (GROUP lbl (Some cs)) (Some (TreeGroup li ls txt (Some rs))) =
     (li = \<lparr>role = ''treeitem'', classes = [''expandable''], ariaExpanded = Some ''false''\<rparr> \<and>
      ls = [(''click'', OnTreeGroupClick), (''keydown'', OnTreeGroupKeyDown)] \<and>
      txt = lbl \<and> groups_shown cs rs)"
| "group_shown (GROUP lbl kids) out = False"
| "group_shown (ITEM i) (Some (TreeGroup li ls txt rs)) = False"
| "group_shown (ITEM i) out = True"
| "groups_shown [] [] = True"
| "groups_shown (t # ts) (r # rs) = (group_shown t r \<and> groups_shown ts rs)"
| "groups_shown ts rs = False"

definition expanded :: "element \<Rightarrow> bool" where
  "expanded e = (ariaExpanded e = Some ''true'')"

text \<open>
  The component together with what it has put on the page: LitElement's
  \<^verbatim>\<open>renderRoot\<close>, here the \<^verbatim>\<open>li\<close> elements of the groups, whose
  \<^verbatim>\<open>aria-expanded\<close> attribute the toggle handlers write.
\<close>

record MountedSideNav = SideNavElement +
  renderRoot :: "element list"

section \<open>Auxiliary facts\<close>

lemma error_is_TypeError: "(e :: error) = TypeError"
  by (cases e) simp

lemma str_includes_sublist: "str_includes s t = sublist t s"
  by (induction s) (simp_all add: sublist_Cons_right)

lemma routes_at_in_range:
  "0 \<le> i \<Longrightarrow> i < int (length (routes this)) \<Longrightarrow> routes_at this i = Some (routes this ! nat i)"
  by (simp add: routes_at_def)

lemma renderTreeItem_out_of_range:
  "i < 0 \<or> int (length (routes this)) \<le> i \<Longrightarrow> renderTreeItem this (ITEM i) = Inl TypeError"
  by (auto simp: routes_at_def itemHiddenForSearch_def Let_def)

lemma renderTreeItems_raises:
  "x \<in> set ts \<Longrightarrow> renderTreeItem this x = Inl e \<Longrightarrow> \<exists>e'. renderTreeItems this ts = Inl e'"
  by (induction ts) (auto split: sum.splits)

text \<open>Rendering raises exactly when some ITEM below the node is out of bounds.\<close>

lemma raises_iff_out_of_bounds:
  "(renderTreeItem this t = Inl TypeError) = (\<not> in_bounds (routes this) t)"
  "(renderTreeItems this ts = Inl TypeError) = (\<not> list_all (in_bounds (routes this)) ts)"
proof (induction this t and this ts rule: renderTreeItem_renderTreeItems.induct)
  case (3 this i)
  show ?case
    by (cases "label (routes this ! nat i)")
       (auto simp: routes_at_def itemHiddenForSearch_def Let_def)
next
  case (2 this lbl cs)
  then show ?case
    by (cases "renderTreeItems this cs") (simp_all add: error_is_TypeError)
next
  case (5 this x xs)
  then show ?case
    by (cases "renderTreeItem this x"; cases "renderTreeItems this xs")
       (simp_all add: error_is_TypeError)
qed simp_all

text \<open>Whatever the render returns shows every group of its input, at every depth.\<close>

lemma rendered_shows_groups:
  "renderTreeItem this t = Inr r \<Longrightarrow> group_shown t r"
  "renderTreeItems this ts = Inr rs \<Longrightarrow> groups_shown ts rs"
proof (induction this t arbitrary: r and rs rule: renderTreeItem_renderTreeItems.induct)
  case (3 this i)
  then show ?case
    by (auto simp: Let_def split: sum.splits if_splits option.splits)
qed (auto split: sum.splits)

lemma in_bounds_renders:
  "list_all (in_bounds (routes this)) ts \<Longrightarrow> \<exists>rs. renderTreeItems this ts = Inr rs"
  using raises_iff_out_of_bounds(2) [of this ts]
  by (cases "renderTreeItems this ts") (simp_all add: error_is_TypeError)

lemma toggle_Some:
  "treeGroupToggle (Some e) =
     Some (e\<lparr>ariaExpanded := (if ariaExpanded e = Some ''true'' then Some ''false'' else Some ''true'')\<rparr>)"
  by (simp add: treeGroupToggle_def)

lemma toggle_None: "treeGroupToggle None = None"
  by (simp add: treeGroupToggle_def)

lemma rendered_group_shape:
  "renderTreeItem this (GROUP lbl kids) = Inr (Some (TreeGroup li ls txt rs)) \<Longrightarrow>
     li = \<lparr>role = ''treeitem'', classes = [''expandable''], ariaExpanded = Some ''false''\<rparr> \<and>
     ls = [(''click'', OnTreeGroupClick), (''keydown'', OnTreeGroupKeyDown)] \<and> txt = lbl"
  by (cases kids) (auto split: sum.splits)

lemma routes_at_inputs_only:
  fixes a :: "'a SideNavElement_scheme" and b :: "'b SideNavElement_scheme"
  shows "routes a = routes b \<Longrightarrow> routes_at a i = routes_at b i"
  by (simp add: routes_at_def)

lemma itemHiddenForSearch_inputs_only:
  fixes a :: "'a SideNavElement_scheme" and b :: "'b SideNavElement_scheme"
  shows "searchable a = searchable b \<Longrightarrow> searchString a = searchString b
           \<Longrightarrow> itemHiddenForSearch a r = itemHiddenForSearch b r"
  by (simp add: itemHiddenForSearch_def split: option.splits)

lemma renderTreeItem_inputs_only:
  fixes a :: "'a SideNavElement_scheme" and b :: "'b SideNavElement_scheme"
  shows "routes a = routes b \<Longrightarrow> searchable a = searchable b \<Longrightarrow> searchString a = searchString b
           \<Longrightarrow> renderTreeItem a t = renderTreeItem b t"
    and "routes a = routes b \<Longrightarrow> searchable a = searchable b \<Longrightarrow> searchString a = searchString b
           \<Longrightarrow> renderTreeItems a ts = renderTreeItems b ts"
proof (induction a t and a ts rule: renderTreeItem_renderTreeItems.induct)
  case (3 this i)
  then show ?case
    using routes_at_inputs_only [of this b i] itemHiddenForSearch_inputs_only [of this b]
    by simp
qed (simp_all split: sum.splits)

lemma state_after_frame:
  "routes (state_after op this) = routes this \<and> routeTree (state_after op this) = routeTree this"
  by (cases op) (simp_all add: onSearch_def)

lemma fold_state_after_frame:
  "routes (fold state_after ops this) = routes this \<and>
   routeTree (fold state_after ops this) = routeTree this"
  by (induction ops arbitrary: this) (simp_all add: state_after_frame)

section \<open>The claims\<close>

text \<open>
  C1. An ITEM whose index resolves to the route \<open>r\<close> renders nothing exactly when
  \<open>searchable\<close> is set, \<open>searchString\<close> is not empty and the label of \<open>r\<close> does not
  contain \<open>searchString\<close> as a contiguous run of the same characters (a missing label
  contains nothing); in every other case it renders the leaf whose link has
  \<open>href = path r\<close> and text \<open>label r\<close>.
\<close>

theorem leaf_hidden_iff_search_excludes_label:
  assumes "0 \<le> i" and "i < int (length (routes this))" and "r = routes this ! nat i"
  shows "renderTreeItem this (ITEM i) =
           (if searchable this \<and> searchString this \<noteq> [] \<and>
               \<not> (\<exists>l. label r = Some l \<and> sublist (searchString this) l)
            then Inr None
            else Inr (Some (TreeLeaf \<lparr>role = ''treeitem'', classes = [], ariaExpanded = None\<rparr>
                              (path r) (label r))))"
  using assms
  by (cases "label r")
     (simp_all add: routes_at_in_range itemHiddenForSearch_def str_includes_sublist Let_def)

theorem leaf_hidden_iff_search_excludes_label_witness:
  "renderTreeItem
     \<lparr>routes = [\<lparr>path = ''/a'', label = Some ''Alpha''\<rparr>, \<lparr>path = ''/b'', label = Some ''Beta''\<rparr>],
      routeTree = [ITEM 0, ITEM 1], searchable = True, searchString = ''Be''\<rparr> (ITEM 1)
   = Inr (Some (TreeLeaf \<lparr>role = ''treeitem'', classes = [], ariaExpanded = None\<rparr>
                  ''/b'' (Some ''Beta'')))
   \<and> renderTreeItem
     \<lparr>routes = [\<lparr>path = ''/a'', label = Some ''Alpha''\<rparr>, \<lparr>path = ''/b'', label = Some ''Beta''\<rparr>],
      routeTree = [ITEM 0, ITEM 1], searchable = True, searchString = ''al''\<rparr> (ITEM 0)
   = Inr None"
  using leaf_hidden_iff_search_excludes_label
     [of 1 "\<lparr>routes = [\<lparr>path = ''/a'', label = Some ''Alpha''\<rparr>,
                        \<lparr>path = ''/b'', label = Some ''Beta''\<rparr>],
             routeTree = [ITEM 0, ITEM 1], searchable = True, searchString = ''Be''\<rparr>"
         "\<lparr>path = ''/b'', label = Some ''Beta''\<rparr>"]
    leaf_hidden_iff_search_excludes_label
     [of 0 "\<lparr>routes = [\<lparr>path = ''/a'', label = Some ''Alpha''\<rparr>,
                        \<lparr>path = ''/b'', label = Some ''Beta''\<rparr>],
             routeTree = [ITEM 0, ITEM 1], searchable = True, searchString = ''al''\<rparr>"
         "\<lparr>path = ''/a'', label = Some ''Alpha''\<rparr>"]
  by (simp add: sublist_Cons_right)

text \<open>
  C2. A rendered GROUP starts collapsed: its \<^verbatim>\<open>li\<close> carries \<^verbatim>\<open>aria-expanded="false"\<close>.
  One \<^verbatim>\<open>treeGroupToggle\<close> expands it and a second one gives back the element as it
  was rendered. On every element the toggle flips the expanded flag, and on every
  element whose attribute is \<^verbatim>\<open>"true"\<close> or \<^verbatim>\<open>"false"\<close> (all that a rendered group
  can reach) toggling twice is the identity.
\<close>

theorem group_toggle_flips_expansion:
  assumes "renderTreeItem this (GROUP lbl kids) = Inr (Some (TreeGroup li ls txt rs))"
  shows "ariaExpanded li = Some ''false'' \<and> \<not> expanded li \<and>
         (\<exists>li'. treeGroupToggle (Some li) = Some li' \<and> expanded li') \<and>
         treeGroupToggle (treeGroupToggle (Some li)) = Some li \<and>
         (\<forall>e. \<exists>e'. treeGroupToggle (Some e) = Some e' \<and> expanded e' = (\<not> expanded e)) \<and>
         (\<forall>e. expanded e \<or> ariaExpanded e = Some ''false'' \<longrightarrow>
               treeGroupToggle (treeGroupToggle (Some e)) = Some e)"
proof -
  from assms
  have li: "li = \<lparr>role = ''treeitem'', classes = [''expandable''], ariaExpanded = Some ''false''\<rparr>"
    by (simp add: rendered_group_shape)
  have flips: "\<exists>e'. treeGroupToggle (Some e) = Some e' \<and> expanded e' = (\<not> expanded e)" for e
    by (simp add: toggle_Some expanded_def)
  have twice: "treeGroupToggle (treeGroupToggle (Some e)) = Some e"
    if "expanded e \<or> ariaExpanded e = Some ''false''" for e
    using that by (auto simp: toggle_Some expanded_def)
  from li have collapsed: "ariaExpanded li = Some ''false''" "\<not> expanded li"
    by (simp_all add: expanded_def)
  with flips [of li] twice [of li] flips twice show ?thesis
    by blast
qed

theorem group_toggle_flips_expansion_witness:
  "renderTreeItem
     \<lparr>routes = [\<lparr>path = ''/a'', label = Some ''Alpha''\<rparr>],
      routeTree = [GROUP ''G'' (Some [ITEM 0])], searchable = False, searchString = []\<rparr>
     (GROUP ''G'' (Some [ITEM 0]))
   = Inr (Some (TreeGroup
       \<lparr>role = ''treeitem'', classes = [''expandable''], ariaExpanded = Some ''false''\<rparr>
       [(''click'', OnTreeGroupClick), (''keydown'', OnTreeGroupKeyDown)]
       ''G''
       (Some [Some (TreeLeaf \<lparr>role = ''treeitem'', classes = [], ariaExpanded = None\<rparr>
                      ''/a'' (Some ''Alpha''))])))
   \<and> treeGroupToggle
       (Some \<lparr>role = ''treeitem'', classes = [''expandable''], ariaExpanded = Some ''false''\<rparr>)
     = Some \<lparr>role = ''treeitem'', classes = [''expandable''], ariaExpanded = Some ''true''\<rparr>
   \<and> treeGroupToggle (treeGroupToggle
       (Some \<lparr>role = ''treeitem'', classes = [''expandable''], ariaExpanded = Some ''false''\<rparr>))
     = Some \<lparr>role = ''treeitem'', classes = [''expandable''], ariaExpanded = Some ''false''\<rparr>"
proof -
  have rendered:
    "renderTreeItem
       \<lparr>routes = [\<lparr>path = ''/a'', label = Some ''Alpha''\<rparr>],
        routeTree = [GROUP ''G'' (Some [ITEM 0])], searchable = False, searchString = []\<rparr>
       (GROUP ''G'' (Some [ITEM 0]))
     = Inr (Some (TreeGroup
         \<lparr>role = ''treeitem'', classes = [''expandable''], ariaExpanded = Some ''false''\<rparr>
         [(''click'', OnTreeGroupClick), (''keydown'', OnTreeGroupKeyDown)]
         ''G''
         (Some [Some (TreeLeaf \<lparr>role = ''treeitem'', classes = [], ariaExpanded = None\<rparr>
                        ''/a'' (Some ''Alpha''))])))"
    by (simp add: routes_at_def itemHiddenForSearch_def)
  from group_toggle_flips_expansion [OF rendered] rendered show ?thesis
    by (simp add: toggle_Some)
qed

text \<open>
  C3. Every GROUP of \<open>routeTree\<close>, at every depth, is rendered whatever \<open>searchable\<close>
  and \<open>searchString\<close> are. Rendering a GROUP never returns nothing. Whenever
  \<^verbatim>\<open>render\<close> returns, the items of its tree show the groups of \<open>routeTree\<close>: one
  entry for each tree item in order, each GROUP as the collapsed group element with
  its label, its two listeners and its child container, which in turn shows the
  groups of the children, also where every leaf below is filtered out. And when the
  ITEMs index existing routes (the invariant of the data model), \<^verbatim>\<open>render\<close> and
  \<^verbatim>\<open>renderTreeItem\<close> on a GROUP do return, for every value of \<open>searchable\<close> and of
  \<open>searchString\<close>.
\<close>

theorem group_rendered_whatever_the_search:
  "renderTreeItem (this\<lparr>searchable := b, searchString := s\<rparr>) (GROUP lbl kids) \<noteq> Inr None \<and>
   (in_bounds (routes this) (GROUP lbl kids) \<longrightarrow>
     (\<exists>rs. renderTreeItem (this\<lparr>searchable := b, searchString := s\<rparr>) (GROUP lbl kids) =
        Inr (Some (TreeGroup
          \<lparr>role = ''treeitem'', classes = [''expandable''], ariaExpanded = Some ''false''\<rparr>
          [(''click'', OnTreeGroupClick), (''keydown'', OnTreeGroupKeyDown)]
          lbl rs)) \<and>
        group_shown (GROUP lbl kids) (Some (TreeGroup
          \<lparr>role = ''treeitem'', classes = [''expandable''], ariaExpanded = Some ''false''\<rparr>
          [(''click'', OnTreeGroupClick), (''keydown'', OnTreeGroupKeyDown)]
          lbl rs)))) \<and>
   (\<forall>out. render (this\<lparr>searchable := b, searchString := s\<rparr>) = Inr out \<longrightarrow>
      groups_shown (routeTree this) (tree_items out)) \<and>
   (list_all (in_bounds (routes this)) (routeTree this) \<longrightarrow>
      (\<exists>out. render (this\<lparr>searchable := b, searchString := s\<rparr>) = Inr out))"
proof -
  let ?t = "this\<lparr>searchable := b, searchString := s\<rparr>"
  have never_null: "renderTreeItem ?t (GROUP lbl kids) \<noteq> Inr None"
    by (cases kids) (simp_all split: sum.splits)
  have single: "\<exists>rs. renderTreeItem ?t (GROUP lbl kids) =
        Inr (Some (TreeGroup
          \<lparr>role = ''treeitem'', classes = [''expandable''], ariaExpanded = Some ''false''\<rparr>
          [(''click'', OnTreeGroupClick), (''keydown'', OnTreeGroupKeyDown)]
          lbl rs)) \<and>
        group_shown (GROUP lbl kids) (Some (TreeGroup
          \<lparr>role = ''treeitem'', classes = [''expandable''], ariaExpanded = Some ''false''\<rparr>
          [(''click'', OnTreeGroupClick), (''keydown'', OnTreeGroupKeyDown)]
          lbl rs))"
    if inv: "in_bounds (routes this) (GROUP lbl kids)"
  proof (cases kids)
    case None
    then show ?thesis by simp
  next
    case (Some cs)
    with inv have "list_all (in_bounds (routes ?t)) cs" by simp
    then obtain rs where rs: "renderTreeItems ?t cs = Inr rs"
      using in_bounds_renders by blast
    then have "groups_shown cs rs"
      by (rule rendered_shows_groups(2))
    with Some rs show ?thesis by simp
  qed
  have whole: "groups_shown (routeTree this) (tree_items out)" if "render ?t = Inr out" for out
  proof -
    from that obtain items where items: "renderTreeItems ?t (routeTree ?t) = Inr items"
      and out: "tree_items out = items"
      by (auto simp: render_def Let_def split: sum.splits)
    from items have "groups_shown (routeTree ?t) items"
      by (rule rendered_shows_groups(2))
    with out show ?thesis by simp
  qed
  have total: "\<exists>out. render ?t = Inr out"
    if "list_all (in_bounds (routes this)) (routeTree this)"
  proof -
    from that have "list_all (in_bounds (routes ?t)) (routeTree ?t)" by simp
    then obtain items where "renderTreeItems ?t (routeTree ?t) = Inr items"
      using in_bounds_renders by blast
    then show ?thesis by (simp add: render_def Let_def)
  qed
  from never_null single whole total show ?thesis by blast
qed

theorem group_rendered_whatever_the_search_witness:
  "list_all
     (in_bounds [\<lparr>path = ''/a'', label = Some ''Alpha''\<rparr>, \<lparr>path = ''/b'', label = Some ''Beta''\<rparr>])
     [GROUP ''G'' (Some [ITEM 0, GROUP ''H'' (Some [ITEM 1])])]
   \<and> render
     \<lparr>routes = [\<lparr>path = ''/a'', label = Some ''Alpha''\<rparr>, \<lparr>path = ''/b'', label = Some ''Beta''\<rparr>],
      routeTree = [GROUP ''G'' (Some [ITEM 0, GROUP ''H'' (Some [ITEM 1])])],
      searchable = True, searchString = ''zzz''\<rparr>
   = Inr \<lparr>search_listeners = [(''search'', OnSearch)], search_classes = [],
          tree_role = ''tree'',
          tree_items =
            [Some (TreeGroup
               \<lparr>role = ''treeitem'', classes = [''expandable''], ariaExpanded = Some ''false''\<rparr>
               [(''click'', OnTreeGroupClick), (''keydown'', OnTreeGroupKeyDown)]
               ''G''
               (Some [None,
                      Some (TreeGroup
                        \<lparr>role = ''treeitem'', classes = [''expandable''],
                           ariaExpanded = Some ''false''\<rparr>
                        [(''click'', OnTreeGroupClick), (''keydown'', OnTreeGroupKeyDown)]
                        ''H'' (Some [None]))]))]\<rparr>
   \<and> groups_shown
     [GROUP ''G'' (Some [ITEM 0, GROUP ''H'' (Some [ITEM 1])])]
     [Some (TreeGroup
        \<lparr>role = ''treeitem'', classes = [''expandable''], ariaExpanded = Some ''false''\<rparr>
        [(''click'', OnTreeGroupClick), (''keydown'', OnTreeGroupKeyDown)]
        ''G''
        (Some [None,
               Some (TreeGroup
                 \<lparr>role = ''treeitem'', classes = [''expandable''],
                    ariaExpanded = Some ''false''\<rparr>
                 [(''click'', OnTreeGroupClick), (''keydown'', OnTreeGroupKeyDown)]
                 ''H'' (Some [None]))]))]
   \<and> \<not> groups_shown [GROUP ''G'' (Some [ITEM 0])] [None]"
  using group_rendered_whatever_the_search
     [of "''zzz''" True
         "\<lparr>routes = [\<lparr>path = ''/a'', label = Some ''Alpha''\<rparr>,
                     \<lparr>path = ''/b'', label = Some ''Beta''\<rparr>],
           routeTree = [GROUP ''G'' (Some [ITEM 0, GROUP ''H'' (Some [ITEM 1])])],
           searchable = False, searchString = []\<rparr>"
         "''G''" "Some [ITEM 0, GROUP ''H'' (Some [ITEM 1])]"]
  by (simp add: render_def routes_at_def itemHiddenForSearch_def)

text \<open>
  C4. The event that the search field's \<^verbatim>\<open>input\<close> listener dispatches has the type
  \<^verbatim>\<open>search\<close>, carries the field's current value as its \<^verbatim>\<open>detail\<close>, and is created
  with \<^verbatim>\<open>composed: true\<close>, the flag that lets an event leave the shadow tree it was
  dispatched in: a listener on the SideNav element hears it, as the listener that
  \<^verbatim>\<open>render\<close> binds on the search element does.
\<close>

theorem search_event_carries_value_and_is_composed:
  "input_listeners (search_render el) = [(''input'', OnSearchChange)] \<and>
   ce_type (onSearchChange ev) = ''search'' \<and>
   detail (onSearchChange ev) = target_value ev \<and>
   composed (onSearchChange ev) \<and>
   heard_at (onSearchChange ev) SearchElement \<and>
   heard_at (onSearchChange ev) SideNavHost"
  by (simp add: onSearchChange_def search_render_def)

theorem search_event_carries_value_and_is_composed_witness:
  "detail (onSearchChange \<lparr>target_value = ''Al''\<rparr>) = ''Al'' \<and>
   composed (onSearchChange \<lparr>target_value = ''Al''\<rparr>) \<and>
   heard_at (onSearchChange \<lparr>target_value = ''Al''\<rparr>) SideNavHost"
  using search_event_carries_value_and_is_composed
          [of "\<lparr>placeholder = ''Search''\<rparr>" "\<lparr>target_value = ''Al''\<rparr>"]
  by simp

text \<open>
  C5. An ITEM whose index lies outside \<open>routes\<close> is not guarded: the lookup gives
  \<^verbatim>\<open>undefined\<close>, rendering the leaf raises a TypeError instead of returning a
  placeholder, and so does \<^verbatim>\<open>render\<close> when the item stands in \<open>routeTree\<close>.
\<close>

theorem out_of_bounds_item_raises:
  assumes "i < 0 \<or> int (length (routes this)) \<le> i"
  shows "routes_at this i = None \<and>
         renderTreeItem this (ITEM i) = Inl TypeError \<and>
         (ITEM i \<in> set (routeTree this) \<longrightarrow> render this = Inl TypeError)"
proof -
  have lookup: "routes_at this i = None"
    using assms by (auto simp: routes_at_def)
  have leaf: "renderTreeItem this (ITEM i) = Inl TypeError"
    using assms by (rule renderTreeItem_out_of_range)
  have "render this = Inl TypeError" if "ITEM i \<in> set (routeTree this)"
  proof -
    from renderTreeItems_raises [OF that leaf]
    obtain e where "renderTreeItems this (routeTree this) = Inl e" by blast
    then show ?thesis
      by (cases e) (simp add: render_def)
  qed
  with lookup leaf show ?thesis by blast
qed

theorem out_of_bounds_item_raises_witness:
  "renderTreeItem
     \<lparr>routes = [\<lparr>path = ''/a'', label = Some ''Alpha''\<rparr>],
      routeTree = [ITEM 0, ITEM 1], searchable = False, searchString = []\<rparr> (ITEM 1)
   = Inl TypeError
   \<and> render
     \<lparr>routes = [\<lparr>path = ''/a'', label = Some ''Alpha''\<rparr>],
      routeTree = [ITEM 0, ITEM 1], searchable = False, searchString = []\<rparr>
   = Inl TypeError"
  using out_of_bounds_item_raises
     [of 1 "\<lparr>routes = [\<lparr>path = ''/a'', label = Some ''Alpha''\<rparr>],
             routeTree = [ITEM 0, ITEM 1], searchable = False, searchString = []\<rparr>"]
  by (simp add: routes_at_def itemHiddenForSearch_def render_def)

text \<open>
  C6. A keydown whose key is not \<^verbatim>\<open>Enter\<close> leaves the group element as it was. Of the
  events that reach the label of a rendered group, a \<^verbatim>\<open>click\<close> and a \<^verbatim>\<open>keydown\<close> with
  the key \<^verbatim>\<open>Enter\<close> run the toggle, and every other event leaves the element unchanged.
\<close>

theorem only_click_or_enter_toggles:
  "(key ev \<noteq> Some ''Enter'' \<longrightarrow> onTreeGroupKeyDown ev = parentElement ev) \<and>
   (renderTreeItem this (GROUP lbl kids) = Inr (Some (TreeGroup li ls txt rs)) \<longrightarrow>
      dispatch_on_label ls ev =
        (if ev_type ev = ''click'' \<or> (ev_type ev = ''keydown'' \<and> key ev = Some ''Enter'')
         then treeGroupToggle (parentElement ev) else parentElement ev))"
  by (auto simp: onTreeGroupKeyDown_def onTreeGroupClick_def dest!: rendered_group_shape)

theorem only_click_or_enter_toggles_witness:
  "onTreeGroupKeyDown
     \<lparr>ev_type = ''keydown'', key = Some ''Tab'',
      parentElement = Some \<lparr>role = ''treeitem'', classes = [''expandable''],
                              ariaExpanded = Some ''false''\<rparr>\<rparr>
   = Some \<lparr>role = ''treeitem'', classes = [''expandable''], ariaExpanded = Some ''false''\<rparr>
   \<and> dispatch_on_label [(''click'', OnTreeGroupClick), (''keydown'', OnTreeGroupKeyDown)]
     \<lparr>ev_type = ''keydown'', key = Some ''Tab'',
      parentElement = Some \<lparr>role = ''treeitem'', classes = [''expandable''],
                              ariaExpanded = Some ''false''\<rparr>\<rparr>
   = Some \<lparr>role = ''treeitem'', classes = [''expandable''], ariaExpanded = Some ''false''\<rparr>"
proof -
  have rendered:
    "renderTreeItem
       \<lparr>routes = [], routeTree = [GROUP ''G'' None], searchable = False, searchString = []\<rparr>
       (GROUP ''G'' None)
     = Inr (Some (TreeGroup
         \<lparr>role = ''treeitem'', classes = [''expandable''], ariaExpanded = Some ''false''\<rparr>
         [(''click'', OnTreeGroupClick), (''keydown'', OnTreeGroupKeyDown)]
         ''G'' None))"
    by simp
  from rendered only_click_or_enter_toggles
     [of "\<lparr>ev_type = ''keydown'', key = Some ''Tab'',
            parentElement = Some \<lparr>role = ''treeitem'', classes = [''expandable''],
                                    ariaExpanded = Some ''false''\<rparr>\<rparr>"
         "\<lparr>routes = [], routeTree = [GROUP ''G'' None], searchable = False, searchString = []\<rparr>"
         "''G''" None
         "\<lparr>role = ''treeitem'', classes = [''expandable''], ariaExpanded = Some ''false''\<rparr>"
         "[(''click'', OnTreeGroupClick), (''keydown'', OnTreeGroupKeyDown)]"
         "''G''" None]
  show ?thesis by simp
qed

text \<open>
  C7. When the search field changes with the value \<open>v\<close>, the event it dispatches is a
  \<^verbatim>\<open>search\<close> event with \<open>detail = v\<close>; \<^verbatim>\<open>onSearch\<close> stores that detail unchanged, so
  that afterwards \<open>searchString = v\<close> and nothing else of the component has changed; the
  next render is the render with \<open>searchString = v\<close>, and a labelled leaf is hidden by
  it exactly when \<open>searchable\<close> is set, \<open>v\<close> is not empty and the label does not
  contain \<open>v\<close>.
\<close>

theorem search_value_reaches_searchString:
  "ce_type (onSearchChange ev) = ''search'' \<and>
   detail (onSearchChange ev) = target_value ev \<and>
   searchString (onSearch this (onSearchChange ev)) = target_value ev \<and>
   onSearch this (onSearchChange ev) = this\<lparr>searchString := target_value ev\<rparr> \<and>
   render (onSearch this (onSearchChange ev)) = render (this\<lparr>searchString := target_value ev\<rparr>) \<and>
   itemHiddenForSearch (onSearch this (onSearchChange ev)) (Some \<lparr>path = p, label = Some l\<rparr>) =
     Inr (searchable this \<and> target_value ev \<noteq> [] \<and> \<not> sublist (target_value ev) l)"
  by (simp add: onSearch_def onSearchChange_def itemHiddenForSearch_def str_includes_sublist)

theorem search_value_reaches_searchString_witness:
  "searchString (onSearch
     \<lparr>routes = [\<lparr>path = ''/a'', label = Some ''Alpha''\<rparr>, \<lparr>path = ''/b'', label = Some ''Beta''\<rparr>],
      routeTree = [ITEM 0, ITEM 1], searchable = True, searchString = []\<rparr>
     (onSearchChange \<lparr>target_value = ''Al''\<rparr>)) = ''Al''
   \<and> render (onSearch
     \<lparr>routes = [\<lparr>path = ''/a'', label = Some ''Alpha''\<rparr>, \<lparr>path = ''/b'', label = Some ''Beta''\<rparr>],
      routeTree = [ITEM 0, ITEM 1], searchable = True, searchString = []\<rparr>
     (onSearchChange \<lparr>target_value = ''Al''\<rparr>))
   = Inr \<lparr>search_listeners = [(''search'', OnSearch)], search_classes = [],
          tree_role = ''tree'',
          tree_items =
            [Some (TreeLeaf \<lparr>role = ''treeitem'', classes = [], ariaExpanded = None\<rparr>
                     ''/a'' (Some ''Alpha'')),
             None]\<rparr>"
  using search_value_reaches_searchString
     [of "\<lparr>target_value = ''Al''\<rparr>"
         "\<lparr>routes = [\<lparr>path = ''/a'', label = Some ''Alpha''\<rparr>,
                     \<lparr>path = ''/b'', label = Some ''Beta''\<rparr>],
           routeTree = [ITEM 0, ITEM 1], searchable = True, searchString = []\<rparr>"
         "''/a''" "''Alpha''"]
  by (simp add: render_def routes_at_def itemHiddenForSearch_def)

text \<open>
  C8. What \<^verbatim>\<open>render\<close> and \<^verbatim>\<open>renderTreeItem\<close> return is a function of \<open>routes\<close>,
  \<open>routeTree\<close>, \<open>searchable\<close> and \<open>searchString\<close> alone: two components that agree on
  these four give the same output, whatever else they hold (such as the expansion
  state of what is on the page).
\<close>

theorem render_depends_only_on_inputs:
  fixes a :: "'a SideNavElement_scheme" and b :: "'b SideNavElement_scheme"
  assumes "routes a = routes b" and "routeTree a = routeTree b"
    and "searchable a = searchable b" and "searchString a = searchString b"
  shows "render a = render b \<and> renderTreeItem a t = renderTreeItem b t"
  using assms renderTreeItem_inputs_only [of a b]
  by (simp add: render_def)

theorem render_depends_only_on_inputs_witness:
  "render
     \<lparr>routes = [\<lparr>path = ''/a'', label = Some ''Alpha''\<rparr>],
      routeTree = [GROUP ''G'' (Some [ITEM 0])], searchable = True, searchString = ''Al'',
      renderRoot = [\<lparr>role = ''treeitem'', classes = [''expandable''],
                     ariaExpanded = Some ''true''\<rparr>]\<rparr>
   = render
     \<lparr>routes = [\<lparr>path = ''/a'', label = Some ''Alpha''\<rparr>],
      routeTree = [GROUP ''G'' (Some [ITEM 0])], searchable = True, searchString = ''Al''\<rparr>"
  using render_depends_only_on_inputs
     [of "\<lparr>routes = [\<lparr>path = ''/a'', label = Some ''Alpha''\<rparr>],
           routeTree = [GROUP ''G'' (Some [ITEM 0])], searchable = True, searchString = ''Al'',
           renderRoot = [\<lparr>role = ''treeitem'', classes = [''expandable''],
                          ariaExpanded = Some ''true''\<rparr>]\<rparr>"
         "\<lparr>routes = [\<lparr>path = ''/a'', label = Some ''Alpha''\<rparr>],
           routeTree = [GROUP ''G'' (Some [ITEM 0])], searchable = True, searchString = ''Al''\<rparr>"]
  by simp

text \<open>
  C9. No method of the component changes \<open>routes\<close> or \<open>routeTree\<close>: after any one
  operation, and after any sequence of them, both are what they were.
\<close>

theorem inputs_never_mutated:
  "routes (state_after op this) = routes this \<and>
   routeTree (state_after op this) = routeTree this \<and>
   routes (fold state_after ops this) = routes this \<and>
   routeTree (fold state_after ops this) = routeTree this"
  by (simp add: state_after_frame fold_state_after_frame)

theorem inputs_never_mutated_witness:
  "state_after (Search \<lparr>ce_type = ''search'', detail = ''Al'', composed = True, bubbles = False\<rparr>)
     \<lparr>routes = [\<lparr>path = ''/a'', label = Some ''Alpha''\<rparr>],
      routeTree = [ITEM 0], searchable = True, searchString = []\<rparr>
   = \<lparr>routes = [\<lparr>path = ''/a'', label = Some ''Alpha''\<rparr>],
      routeTree = [ITEM 0], searchable = True, searchString = ''Al''\<rparr>"
  using inputs_never_mutated
     [of "Search \<lparr>ce_type = ''search'', detail = ''Al'', composed = True, bubbles = False\<rparr>"
         "\<lparr>routes = [\<lparr>path = ''/a'', label = Some ''Alpha''\<rparr>],
           routeTree = [ITEM 0], searchable = True, searchString = []\<rparr>"
         "[Render]"]
  by (simp add: onSearch_def)

text \<open>
  C10. For a route without a label, under an active search (\<open>searchable\<close> set and
  \<open>searchString\<close> not empty) \<^verbatim>\<open>itemHiddenForSearch\<close> returns true and does not raise.
\<close>

theorem missing_label_hidden_under_active_search:
  assumes "label r = None" and "searchable this" and "searchString this \<noteq> []"
  shows "itemHiddenForSearch this (Some r) = Inr True"
  using assms by (simp add: itemHiddenForSearch_def)

theorem missing_label_hidden_under_active_search_witness:
  "itemHiddenForSearch
     \<lparr>routes = [\<lparr>path = ''/a'', label = None\<rparr>],
      routeTree = [ITEM 0], searchable = True, searchString = ''a''\<rparr>
     (Some \<lparr>path = ''/a'', label = None\<rparr>)
   = Inr True"
  using missing_label_hidden_under_active_search
     [of "\<lparr>path = ''/a'', label = None\<rparr>"
         "\<lparr>routes = [\<lparr>path = ''/a'', label = None\<rparr>],
           routeTree = [ITEM 0], searchable = True, searchString = ''a''\<rparr>"]
  by simp

end
